theory Spec2Isabelle
  imports Main "HOL-Library.Word"
begin

section \<open>ValkyriaChroniclesPatch.py: data\<close>

text \<open>
  A Python \<open>bytes\<close> object is a list of 8-bit words, a Python \<open>str\<close> a list of
  characters (code points below 256), a Python \<open>int\<close> an unbounded \<open>int\<close>.
  An exception that the script does not catch is a value of \<open>py_error\<close>.
\<close>

type_synonym byte = "8 word"

datatype py_error = ValueError | IndexError | OverflowError

section \<open>Built-in string operations used by the script\<close>

text \<open>\<open>str.isspace\<close> on one character, for the code points below 256.\<close>

definition is_space :: "char \<Rightarrow> bool" where
  "is_space c =
     (let n = (of_char c :: nat)
      in (9 \<le> n \<and> n \<le> 13) \<or> (28 \<le> n \<and> n \<le> 32) \<or> n = 133 \<or> n = 160)"

text \<open>
  \<open>str.split()\<close> without arguments: the maximal runs of characters that are not
  whitespace. \<open>cur\<close> is the token being read.
\<close>

fun split_acc :: "string \<Rightarrow> string \<Rightarrow> string list" where
  "split_acc [] cur = (if cur = [] then [] else [cur])"
| "split_acc (c # cs) cur =
     (if is_space c then (if cur = [] then split_acc cs [] else cur # split_acc cs [])
      else split_acc cs (cur @ [c]))"

definition py_split :: "string \<Rightarrow> string list" where
  "py_split s = split_acc s []"

text \<open>\<open>str.strip()\<close> without arguments.\<close>

definition py_strip :: "string \<Rightarrow> string" where
  "py_strip s = rev (dropWhile is_space (rev (dropWhile is_space s)))"

text \<open>\<open>" ".join(xs)\<close>.\<close>

fun join_sp :: "string list \<Rightarrow> string" where
  "join_sp [] = []"
| "join_sp [x] = x"
| "join_sp (x # y # ys) = x @ CHR '' '' # join_sp (y # ys)"

text \<open>
  \<open>int(token, 16)\<close> on a token without whitespace: an optional sign, an optional
  prefix \<open>0x\<close> or \<open>0X\<close> (after which one underscore may follow), then hexadecimal
  digits, where single underscores may stand between two digits. \<open>None\<close> is the
  \<open>ValueError\<close> of an invalid literal.
\<close>

definition digit_value :: "char \<Rightarrow> nat option" where
  "digit_value c =
     (let n = (of_char c :: nat)
      in if 48 \<le> n \<and> n \<le> 57 then Some (n - 48)
         else if 65 \<le> n \<and> n \<le> 70 then Some (n - 55)
         else if 97 \<le> n \<and> n \<le> 102 then Some (n - 87)
         else None)"

fun scan_digits :: "string \<Rightarrow> bool \<Rightarrow> int \<Rightarrow> int option" where
  "scan_digits [] prev_underscore acc = (if prev_underscore then None else Some acc)"
| "scan_digits (c # cs) prev_underscore acc =
     (if c = CHR ''_'' then (if prev_underscore then None else scan_digits cs True acc)
      else (case digit_value c of
              None \<Rightarrow> None
            | Some d \<Rightarrow> scan_digits cs False (acc * 16 + int d)))"

fun strip_sign :: "string \<Rightarrow> bool \<times> string" where
  "strip_sign [] = (False, [])"
| "strip_sign (c # cs) =
     (if c = CHR ''-'' then (True, cs)
      else if c = CHR ''+'' then (False, cs)
      else (False, c # cs))"

fun strip_prefix16 :: "string \<Rightarrow> string" where
  "strip_prefix16 (a # b # cs) =
     (if a = CHR ''0'' \<and> (b = CHR ''x'' \<or> b = CHR ''X'')
      then (case cs of u # cs' \<Rightarrow> if u = CHR ''_'' then cs' else cs | [] \<Rightarrow> cs)
      else a # b # cs)"
| "strip_prefix16 s = s"

definition py_int16 :: "string \<Rightarrow> int option" where
  "py_int16 token =
     (case strip_sign token of (neg, s) \<Rightarrow>
        (case strip_prefix16 s of
           [] \<Rightarrow> None
         | c # cs \<Rightarrow>
             if c = CHR ''_'' then None
             else map_option (\<lambda>v. if neg then - v else v) (scan_digits (c # cs) False 0)))"

text \<open>\<open>bytes(byte_array)\<close>: every element must be in \<open>range(0, 256)\<close>.\<close>

definition py_bytes :: "int list \<Rightarrow> py_error + byte list" where
  "py_bytes xs =
     (if list_all (\<lambda>v. 0 \<le> v \<and> v < 256) xs then Inr (map word_of_int xs)
      else Inl ValueError)"

text \<open>
  \<open>f"{byte:02X}"\<close>: two uppercase hexadecimal digits; \<open>hex_digit_upper\<close> is
  only applied to numbers below 16.
\<close>

definition hex_digit_upper :: "nat \<Rightarrow> char" where
  "hex_digit_upper d = ''0123456789ABCDEF'' ! d"

definition format_02X :: "byte \<Rightarrow> string" where
  "format_02X b = [hex_digit_upper (unat b div 16), hex_digit_upper (unat b mod 16)]"

section \<open>parse_signature\<close>

text \<open>The loop of \<open>parse_signature\<close> over the tokens, appending to \<open>byte_array\<close>.\<close>

fun parse_tokens :: "string list \<Rightarrow> int list \<Rightarrow> py_error + int list" where
  "parse_tokens [] byte_array = Inr byte_array"
| "parse_tokens (token # rest) byte_array =
     (if token = ''?'' \<or> token = ''??'' then parse_tokens rest (byte_array @ [0])
      else (case py_int16 token of
              None \<Rightarrow> Inl ValueError
            | Some v \<Rightarrow> parse_tokens rest (byte_array @ [v])))"

definition parse_signature :: "string \<Rightarrow> py_error + byte list" where
  "parse_signature signature =
     (case parse_tokens (py_split signature) [] of
        Inl e \<Rightarrow> Inl e
      | Inr byte_array \<Rightarrow> py_bytes byte_array)"

section \<open>patch: the replacement pattern\<close>

text \<open>
  \<open>int(x / 2)\<close> for an integer \<open>x\<close>. The division \<open>/\<close> gives the double
  nearest to the quotient (53 significant bits, ties to the even significand), or
  raises \<open>OverflowError\<close> when the quotient is too large for a double; \<open>int\<close> then
  cuts the fraction off, towards zero. \<open>bit_length\<close> is \<open>int.bit_length\<close>.
\<close>

fun bit_length :: "nat \<Rightarrow> nat" where
  "bit_length n = (if n = 0 then 0 else Suc (bit_length (n div 2)))"

definition round_53 :: "nat \<Rightarrow> nat" where
  "round_53 m =
     (let n = bit_length m
      in if n \<le> 53 then m
         else (let k = n - 53; q = m div 2 ^ k; r = m mod 2 ^ k; h = 2 ^ (k - 1)
               in (if h < r \<or> (r = h \<and> odd q) then q + 1 else q) * 2 ^ k))"

definition int_truediv2 :: "int \<Rightarrow> py_error + int" where
  "int_truediv2 x =
     (let m = round_53 (nat \<bar>x\<bar>)
      in if 2 ^ 1025 \<le> m then Inl OverflowError else Inr (sgn x * int (m div 2)))"

text \<open>\<open>n.to_bytes(4, byteorder="little", signed=False)\<close>.\<close>

definition to_bytes4 :: "int \<Rightarrow> py_error + byte list" where
  "to_bytes4 n =
     (if n < 0 \<or> 2 ^ 32 \<le> n then Inl OverflowError
      else Inr [word_of_int n, word_of_int (n div 2 ^ 8), word_of_int (n div 2 ^ 16),
                word_of_int (n div 2 ^ 24)])"

text \<open>\<open>" ".join(f"{byte:02X}" for byte in bs)\<close>.\<close>

definition hex_tokens :: "byte list \<Rightarrow> string" where
  "hex_tokens bs = join_sp (map format_02X bs)"

text \<open>Lines 186 and 187 of \<open>patch\<close>: a zero in the configuration selects the desktop.\<close>

definition resolution :: "int \<Rightarrow> int \<Rightarrow> int \<Rightarrow> int \<Rightarrow> int \<times> int" where
  "resolution width height desktop_width desktop_height =
     (if width = 0 \<or> height = 0 then (desktop_width, desktop_height) else (width, height))"

text \<open>Line 188: \<open>offset = int((desktop_width - width) / 2)\<close>.\<close>

definition patch_offset :: "int \<Rightarrow> int \<Rightarrow> py_error + int" where
  "patch_offset desktop_width width = int_truediv2 (desktop_width - width)"

text \<open>Line 189: \<open>height << 4\<close>.\<close>

definition patch_special :: "int \<Rightarrow> int" where
  "patch_special height = push_bit 4 height"

definition search_pattern1 :: string where
  "search_pattern1 = ''B8 39 8E E3 38 F7 E3 8B FA B8 39 8E E3 38''"

text \<open>
  Lines 186 to 198 of \<open>patch\<close>: the string \<open>replace_pattern\<close>, from the configured
  resolution and the desktop resolution, in the order of the source's statements.
\<close>

definition patch_replace_pattern :: "int \<Rightarrow> int \<Rightarrow> int \<Rightarrow> int \<Rightarrow> py_error + string" where
  "patch_replace_pattern width0 height0 desktop_width desktop_height =
     (case resolution width0 height0 desktop_width desktop_height of (width, height) \<Rightarrow>
      (case patch_offset desktop_width width of Inl e \<Rightarrow> Inl e | Inr offset \<Rightarrow>
      (case to_bytes4 (patch_special height) of Inl e \<Rightarrow> Inl e | Inr special \<Rightarrow>
      (case to_bytes4 width of Inl e \<Rightarrow> Inl e | Inr width_b \<Rightarrow>
      (case to_bytes4 height of Inl e \<Rightarrow> Inl e | Inr height_b \<Rightarrow>
      (case to_bytes4 offset of Inl e \<Rightarrow> Inl e | Inr offset_b \<Rightarrow>
         Inr (''B8 '' @ hex_tokens width_b @ '' BB '' @ hex_tokens special
              @ '' B9 '' @ hex_tokens offset_b @ '' BA '' @ hex_tokens width_b
              @ '' BE '' @ hex_tokens height_b @ '' BF '' @ hex_tokens width_b
              @ '' 90'')))))))"

section \<open>The files and the console\<close>

text \<open>
  The script reads and writes two files: the sidecar \<open>patch.txt\<close>, in text mode, and
  the executable at \<open>game_path\<close>, in binary mode; they are taken to be different files.
  A file is missing (\<open>open\<close> raises \<open>FileNotFoundError\<close>), cannot be opened
  (\<open>open\<close> raises another \<open>IOError\<close>), or has contents: the text that a read in text
  mode returns, or the bytes. \<open>patch_txt_writable\<close> says whether
  \<open>open("patch.txt", "w")\<close> succeeds; when it does not, it raises an \<open>IOError\<close>
  other than \<open>FileNotFoundError\<close>. Every \<open>print\<close> of the script is a message with
  the values it interpolates.
\<close>

datatype 'a py_file = Missing | Unreadable | File 'a

datatype message =
    YamlNotFoundMsg string
  | YamlErrorMsg
  | YamlWidth int
  | YamlHeight int
  | PatchTxtFound
  | WillSearch string
  | PatchTxtNotFound
  | WillSearchDefault string
  | IOErrorWithFile
  | CannotFind string
  | ReinstallHint
  | Found string int
  | Replaced string int
  | GameNotFound string

record world =
  patch_txt :: "string py_file"
  patch_txt_writable :: bool
  game_file :: "byte list py_file"
  console :: "message list"

definition py_print :: "message list \<Rightarrow> world \<Rightarrow> world" where
  "py_print ms w = w\<lparr>console := console w @ ms\<rparr>"

text \<open>\<open>file.readlines()\<close>: the lines, each with its newline.\<close>

fun readlines_acc :: "string \<Rightarrow> string \<Rightarrow> string list" where
  "readlines_acc [] cur = (if cur = [] then [] else [cur])"
| "readlines_acc (c # cs) cur =
     (if c = CHR 0x0A then (cur @ [c]) # readlines_acc cs []
      else readlines_acc cs (cur @ [c]))"

definition readlines :: "string \<Rightarrow> string list" where
  "readlines text = readlines_acc text []"

text \<open>\<open>data.find(sp1, 0)\<close>: the first index where \<open>sub\<close> occurs, or \<open>-1\<close>.\<close>

fun find_from :: "byte list \<Rightarrow> byte list \<Rightarrow> nat \<Rightarrow> int" where
  "find_from [] sub i = (if sub = [] then int i else - 1)"
| "find_from (x # xs) sub i =
     (if take (length sub) (x # xs) = sub then int i else find_from xs sub (Suc i))"

definition py_find :: "byte list \<Rightarrow> byte list \<Rightarrow> int" where
  "py_find data sub = find_from data sub 0"

text \<open>\<open>file.seek(offset); file.write(rp)\<close> on a file that holds \<open>data\<close>.\<close>

definition write_at :: "byte list \<Rightarrow> nat \<Rightarrow> byte list \<Rightarrow> byte list" where
  "write_at data offset rp = take offset data @ rp @ drop (offset + length rp) data"

section \<open>edit_exe\<close>

text \<open>
  Lines 132 to 147: the search string, its bytes \<open>sp1\<close> and the replacement bytes
  \<open>rp\<close>. An empty \<open>patch.txt\<close> makes \<open>data[0]\<close> raise \<open>IndexError\<close>, and a first
  line that does not parse raises \<open>ValueError\<close>; the \<open>try\<close> catches neither.
\<close>

definition edit_exe_patterns ::
  "string \<Rightarrow> string \<Rightarrow> world \<Rightarrow> (py_error + string \<times> byte list \<times> byte list) \<times> world" where
  "edit_exe_patterns search_pattern0 replace_pattern w =
     (let search_pattern = py_strip search_pattern0
      in case parse_signature search_pattern of Inl e \<Rightarrow> (Inl e, w) | Inr sp1 \<Rightarrow>
        (case parse_signature replace_pattern of Inl e \<Rightarrow> (Inl e, w) | Inr rp \<Rightarrow>
        (case patch_txt w of
           Missing \<Rightarrow>
             (Inr (search_pattern, sp1, rp),
              py_print [PatchTxtNotFound, WillSearchDefault search_pattern] w)
         | Unreadable \<Rightarrow> (Inr (search_pattern, sp1, rp), py_print [IOErrorWithFile] w)
         | File text \<Rightarrow>
             (case readlines text of
                [] \<Rightarrow> (Inl IndexError, py_print [PatchTxtFound] w)
              | line # _ \<Rightarrow>
                  (let search_pattern' = py_strip line;
                       w' = py_print [PatchTxtFound, WillSearch search_pattern'] w
                   in case parse_signature search_pattern' of
                        Inl e \<Rightarrow> (Inl e, w')
                      | Inr sp1' \<Rightarrow> (Inr (search_pattern', sp1', rp), w'))))))"

text \<open>
  Lines 149 to 166. The function has no \<open>return\<close> other than \<open>return None\<close>, so the
  value returned is \<open>None\<close> on every path.
\<close>

definition edit_exe_apply ::
  "string \<Rightarrow> string \<Rightarrow> byte list \<Rightarrow> byte list \<Rightarrow> string \<Rightarrow> world \<Rightarrow> int option \<times> world" where
  "edit_exe_apply game_path search_pattern sp1 rp replace_pattern w =
     (case game_file w of
        Missing \<Rightarrow> (None, py_print [GameNotFound game_path] w)
      | Unreadable \<Rightarrow> (None, py_print [IOErrorWithFile] w)
      | File data \<Rightarrow>
          (let offset = py_find data sp1
           in if offset = - 1 then (None, py_print [CannotFind search_pattern, ReinstallHint] w)
              else (let w1 = py_print [Found search_pattern offset, Replaced replace_pattern offset]
                               (w\<lparr>game_file := File (write_at data (nat offset) rp)\<rparr>)
                    in if patch_txt_writable w1
                       then (None, w1\<lparr>patch_txt := File replace_pattern\<rparr>)
                       else (None, py_print [IOErrorWithFile] w1))))"

definition edit_exe ::
  "string \<Rightarrow> string \<Rightarrow> string \<Rightarrow> world \<Rightarrow> (py_error + int option) \<times> world" where
  "edit_exe game_path search_pattern replace_pattern w =
     (case edit_exe_patterns search_pattern replace_pattern w of
        (Inl e, w') \<Rightarrow> (Inl e, w')
      | (Inr (search_pattern', sp1, rp), w') \<Rightarrow>
          (case edit_exe_apply game_path search_pattern' sp1 rp replace_pattern w' of
             (r, w'') \<Rightarrow> (Inr r, w'')))"

section \<open>read_yaml, get_desktop_resolution and patch\<close>

text \<open>
  The configuration file as \<open>read_yaml\<close> meets it: missing, not parsable, or loaded,
  where the loaded document is \<open>None\<close> or holds the integers
  \<open>resolution.width\<close> and \<open>resolution.height\<close>.
\<close>

datatype yaml_file = YamlNotFound | YamlInvalid | YamlLoaded "(int \<times> int) option"

definition read_yaml :: "string \<Rightarrow> yaml_file \<Rightarrow> world \<Rightarrow> (int \<times> int) option \<times> world" where
  "read_yaml yaml_path y w =
     (case y of
        YamlNotFound \<Rightarrow> (None, py_print [YamlNotFoundMsg yaml_path] w)
      | YamlInvalid \<Rightarrow> (None, py_print [YamlErrorMsg] w)
      | YamlLoaded data \<Rightarrow> (data, w))"

record monitor =
  mon_width :: int
  mon_height :: int
  is_primary :: bool

definition get_desktop_resolution :: "monitor list \<Rightarrow> py_error + int \<times> int" where
  "get_desktop_resolution monitors =
     (case filter is_primary monitors of
        m # _ \<Rightarrow> Inr (mon_width m, mon_height m)
      | [] \<Rightarrow> (case monitors of
                 [] \<Rightarrow> Inl IndexError
               | m # _ \<Rightarrow> Inr (mon_width m, mon_height m)))"

definition patch ::
  "string \<Rightarrow> yaml_file \<Rightarrow> monitor list \<Rightarrow> world \<Rightarrow> (py_error + int option) \<times> world" where
  "patch game_exe y monitors w =
     (case read_yaml ''ValkyriaChroniclesFix.yml'' y w of
        (None, w0) \<Rightarrow> (Inr None, w0)
      | (Some (width, height), w0) \<Rightarrow>
          (let w1 = py_print [YamlWidth width, YamlHeight height] w0
           in case get_desktop_resolution monitors of
                Inl e \<Rightarrow> (Inl e, w1)
              | Inr (desktop_width, desktop_height) \<Rightarrow>
                  (case patch_replace_pattern width height desktop_width desktop_height of
                     Inl e \<Rightarrow> (Inl e, w1)
                   | Inr pat \<Rightarrow>
                       (case edit_exe game_exe search_pattern1 pat w1 of
                          (Inl e, w2) \<Rightarrow> (Inl e, w2)
                        | (Inr r, w2) \<Rightarrow> (Inr None, w2)))))"

section \<open>Notions of the specification\<close>

text \<open>
  The specification's rendering of a value as a 4-byte little-endian group: byte \<open>i\<close>
  is \<open>n div 256 ^ i mod 256\<close>, written as two uppercase hexadecimal digits, the bytes
  separated by single spaces. \<open>in_u32\<close> is the range of an unsigned 32-bit value.
\<close>

definition hex_pair :: "nat \<Rightarrow> string" where
  "hex_pair k = [''0123456789ABCDEF'' ! (k div 16), ''0123456789ABCDEF'' ! (k mod 16)]"

definition hex_group :: "int \<Rightarrow> string" where
  "hex_group n =
     hex_pair (nat (n mod 256)) @ '' '' @ hex_pair (nat (n div 256 mod 256)) @ '' ''
     @ hex_pair (nat (n div 65536 mod 256)) @ '' '' @ hex_pair (nat (n div 16777216 mod 256))"

definition in_u32 :: "int \<Rightarrow> bool" where
  "in_u32 n = (0 \<le> n \<and> n < 4294967296)"

text \<open>
  Tokens. The specification's byte token has two hexadecimal digits; a signature that
  re-encodes to itself needs uppercase digits. \<open>token_int\<close> is the value that the
  loop of \<open>parse_signature\<close> appends for a token (\<open>None\<close> when \<open>int\<close> raises);
  a token is acceptable (\<open>token_ok\<close>) when that value fits a byte, and then
  \<open>token_byte\<close> is the byte. \<open>reencode\<close> decodes a signature and formats the bytes
  again; \<open>canonical\<close> is what a token of the signature becomes.
\<close>

definition wildcard :: "string \<Rightarrow> bool" where
  "wildcard t = (t = ''?'' \<or> t = ''??'')"

definition hex_digit :: "char \<Rightarrow> bool" where
  "hex_digit c = (c \<in> set ''0123456789abcdefABCDEF'')"

definition upper_hex_digit :: "char \<Rightarrow> bool" where
  "upper_hex_digit c = (c \<in> set ''0123456789ABCDEF'')"

fun hex_byte_token :: "string \<Rightarrow> bool" where
  "hex_byte_token [a, b] = (hex_digit a \<and> hex_digit b)"
| "hex_byte_token t = False"

fun upper_hex_byte_token :: "string \<Rightarrow> bool" where
  "upper_hex_byte_token [a, b] = (upper_hex_digit a \<and> upper_hex_digit b)"
| "upper_hex_byte_token t = False"


definition token_int :: "string \<Rightarrow> int option" where
  "token_int t = (if wildcard t then Some 0 else py_int16 t)"

definition token_ok :: "string \<Rightarrow> bool" where
  "token_ok t = (case token_int t of None \<Rightarrow> False | Some v \<Rightarrow> 0 \<le> v \<and> v < 256)"

definition token_byte :: "string \<Rightarrow> byte" where
  "token_byte t = (case token_int t of None \<Rightarrow> 0 | Some v \<Rightarrow> word_of_int v)"

definition reencode :: "string \<Rightarrow> py_error + string" where
  "reencode s = (case parse_signature s of Inl e \<Rightarrow> Inl e | Inr bs \<Rightarrow> Inr (hex_tokens bs))"

definition signature_token :: "string \<Rightarrow> bool" where
  "signature_token t = (upper_hex_byte_token t \<or> wildcard t)"

definition canonical :: "string \<Rightarrow> string" where
  "canonical t = (if wildcard t then ''00'' else t)"

text \<open>
  Where a byte string occurs in a buffer: \<open>occurs_at sub data i\<close> says that \<open>sub\<close>
  stands in \<open>data\<close> at offset \<open>i\<close>, and \<open>occurrences\<close> lists the offsets in
  increasing order. A buffer contains \<open>sub\<close> when the list is not empty, and exactly
  once when it has one element.
\<close>

definition occurs_at :: "byte list \<Rightarrow> byte list \<Rightarrow> nat \<Rightarrow> bool" where
  "occurs_at sub data i = (i + length sub \<le> length data \<and> take (length sub) (drop i data) = sub)"

definition occurrences :: "byte list \<Rightarrow> byte list \<Rightarrow> nat list" where
  "occurrences sub data = filter (occurs_at sub data) [0..<Suc (length data)]"

text \<open>A small state of the files, for concrete runs.\<close>

definition world0 :: world where
  "world0 = \<lparr>patch_txt = Missing, patch_txt_writable = True,
             game_file = File [0x00, 0xAA, 0xBB, 0xCC, 0x00], console = []\<rparr>"

text \<open>
  A state in which the executable holds the 31 bytes of the original instructions,
  after two other bytes, and no sidecar exists.
\<close>

definition world1 :: world where
  "world1 = \<lparr>patch_txt = Missing, patch_txt_writable = True,
             game_file = File [0x55, 0x8B,
               0xB8, 0x39, 0x8E, 0xE3, 0x38, 0xF7, 0xE3, 0x8B, 0xFA, 0xB8, 0x39, 0x8E, 0xE3, 0x38,
               0xF7, 0xEB, 0xD1, 0xFA, 0x8B, 0xC2, 0xC1, 0xE8, 0x1F, 0x03, 0xC2, 0x2B, 0xC8,
               0xD1, 0xEF, 0xD1, 0xF9, 0xC3],
             console = []\<rparr>"

text \<open>
  The lengths of the search buffer \<open>sp1\<close> and of the replacement buffer \<open>rp\<close> with
  which \<open>edit_exe\<close> goes on to search and write, when it gets that far.
\<close>

definition buffer_lengths ::
  "py_error + string \<times> byte list \<times> byte list \<Rightarrow> (nat \<times> nat) option" where
  "buffer_lengths r =
     (case r of Inl e \<Rightarrow> None | Inr (s, sp1, rp) \<Rightarrow> Some (length sp1, length rp))"




text \<open>The files of \<open>world0\<close> with the pattern \<open>BB CC\<close> in the sidecar.\<close>

definition world2 :: world where
  "world2 = \<lparr>patch_txt = File ''BB CC'', patch_txt_writable = True,
             game_file = File [0x00, 0xAA, 0xBB, 0xCC, 0x00], console = []\<rparr>"

section \<open>The patch calculator\<close>

lemma bit_length_le: "bit_length m \<le> k \<longleftrightarrow> m < 2 ^ k"
proof (induction k arbitrary: m)
  case 0
  show ?case by (subst bit_length.simps) simp
next
  case (Suc k)
  have "bit_length m \<le> Suc k \<longleftrightarrow> m = 0 \<or> bit_length (m div 2) \<le> k"
    by (subst bit_length.simps) simp
  also have "\<dots> \<longleftrightarrow> m = 0 \<or> m div 2 < 2 ^ k"
    by (simp only: Suc.IH)
  also have "\<dots> \<longleftrightarrow> m < 2 ^ Suc k"
    by auto
  finally show ?case .
qed

lemma round_53_small: "m < 2 ^ 53 \<Longrightarrow> round_53 m = m"
  by (simp add: round_53_def Let_def bit_length_le del: bit_length.simps)

text \<open>
  Below \<open>2 ^ 53\<close> the double division is exact, and \<open>int(x / 2)\<close> is the quotient
  cut off towards zero.
\<close>

lemma int_truediv2_small:
  assumes "\<bar>x\<bar> < 2 ^ 53"
  shows "int_truediv2 x = Inr (sgn x * (\<bar>x\<bar> div 2))"
proof -
  have m: "nat \<bar>x\<bar> < 2 ^ 53"
    using assms by (simp add: nat_less_iff)
  have "round_53 (nat \<bar>x\<bar>) = nat \<bar>x\<bar>"
    using m by (rule round_53_small)
  moreover have "\<not> 2 ^ 1025 \<le> nat \<bar>x\<bar>"
    using m by simp
  moreover have "int (nat \<bar>x\<bar> div 2) = \<bar>x\<bar> div 2"
    by (simp add: zdiv_int)
  ultimately show ?thesis
    by (simp add: int_truediv2_def Let_def)
qed

lemma patch_offset_same: "patch_offset w w = Inr 0"
  by (simp add: patch_offset_def int_truediv2_small)

lemma unat_byte_of_int: "unat (word_of_int n :: byte) = nat (n mod 256)"
  by (simp add: unsigned_of_int take_bit_eq_mod)

lemma format_02X_of_int: "format_02X (word_of_int n) = hex_pair (nat (n mod 256))"
  by (simp add: format_02X_def hex_pair_def hex_digit_upper_def unat_byte_of_int)

lemma to_bytes4_cases:
  "to_bytes4 n =
     (if in_u32 n
      then Inr [word_of_int n, word_of_int (n div 2 ^ 8), word_of_int (n div 2 ^ 16),
                word_of_int (n div 2 ^ 24)]
      else Inl OverflowError)"
  by (auto simp add: to_bytes4_def in_u32_def)

lemma hex_tokens_to_bytes4:
  "hex_tokens [word_of_int n, word_of_int (n div 256), word_of_int (n div 65536),
               word_of_int (n div 16777216)] = hex_group n"
  by (simp add: hex_tokens_def hex_group_def format_02X_of_int)

lemma patch_offset_trunc:
  "\<bar>dw - w\<bar> < 2 ^ 53 \<Longrightarrow> patch_offset dw w = Inr (sgn (dw - w) * (\<bar>dw - w\<bar> div 2))"
  by (simp add: patch_offset_def int_truediv2_small)

lemma to_bytes4_negative: "n < 0 \<Longrightarrow> to_bytes4 n = Inl OverflowError"
  by (simp add: to_bytes4_def)

text \<open>
  C1. The claim asks that a negative centering value be encoded by two's-complement
  wraparound. The code departs from it: with a configured width of 5120 on a desktop
  1920 wide, the centering value is \<open>-1600\<close>, \<open>to_bytes\<close> with \<open>signed=False\<close>
  raises \<open>OverflowError\<close> on it, and the calculator produces no replacement pattern.
\<close>

theorem negative_offset_overflow:
  "patch_offset 1920 5120 = Inr (- 1600)
   \<and> to_bytes4 (- 1600) = Inl OverflowError
   \<and> patch_replace_pattern 5120 1440 1920 1080 = Inl OverflowError"
  by (simp add: patch_replace_pattern_def resolution_def patch_offset_def int_truediv2_small
      patch_special_def to_bytes4_def)

lemma patch_replace_pattern_cases:
  "patch_replace_pattern cw ch dw dh =
     (case resolution cw ch dw dh of (width, height) \<Rightarrow>
        (case patch_offset dw width of
           Inl e \<Rightarrow> Inl e
         | Inr offset \<Rightarrow>
             if in_u32 (patch_special height) \<and> in_u32 width \<and> in_u32 height \<and> in_u32 offset
             then Inr (''B8 '' @ hex_group width @ '' BB '' @ hex_group (patch_special height)
                       @ '' B9 '' @ hex_group offset @ '' BA '' @ hex_group width
                       @ '' BE '' @ hex_group height @ '' BF '' @ hex_group width @ '' 90'')
             else Inl OverflowError))"
  unfolding patch_replace_pattern_def to_bytes4_cases
  by (simp add: hex_tokens_to_bytes4 split: prod.splits sum.splits)

lemma patch_offset_error: "patch_offset dw w = Inl e \<Longrightarrow> e = OverflowError"
  by (auto simp add: patch_offset_def int_truediv2_def Let_def split: if_splits)

lemma patch_offset_centered:
  assumes "w \<le> dw" and "dw - w < 2 ^ 53"
  shows "patch_offset dw w = Inr ((dw - w) div 2)"
proof -
  have "\<bar>dw - w\<bar> < 2 ^ 53"
    using assms by simp
  then have "patch_offset dw w = Inr (sgn (dw - w) * (\<bar>dw - w\<bar> div 2))"
    by (rule patch_offset_trunc)
  moreover have "sgn (dw - w) * (\<bar>dw - w\<bar> div 2) = (dw - w) div 2"
    using assms(1) by (cases "dw = w") (simp_all add: sgn_if)
  ultimately show ?thesis by simp
qed

text \<open>
  C2 (amended). Let \<open>width\<close> and \<open>height\<close> be the configured values, or the desktop's
  when a configured value is 0. When \<open>0 \<le> width \<le> desktop_width < 2^32\<close> and
  \<open>0 \<le> height < 2^28\<close>, the calculator returns the tokens in the order
  \<open>B8 width BB special B9 offset BA width BE height BF width 90\<close>, where \<open>special\<close> is
  \<open>height * 16\<close> and \<open>offset\<close> is \<open>(desktop_width - width) div 2\<close>, each group being
  the 4-byte little-endian rendering in uppercase two-digit tokens. When \<open>width\<close> or
  \<open>height\<close> is negative, \<open>width\<close> is \<open>2^32\<close> or more, or \<open>height\<close> is \<open>2^28\<close> or
  more, it raises \<open>OverflowError\<close>. For 5120 by 1440 on a desktop of 5120 by 1440,
  \<open>special\<close> is \<open>1440 << 4 = 23040\<close> and the result is the documented string.
\<close>

theorem replace_pattern_field_order:
  assumes "width = (if cw = 0 \<or> ch = 0 then dw else cw)"
    and "height = (if cw = 0 \<or> ch = 0 then dh else ch)"
  shows "(0 \<le> width \<and> width \<le> dw \<and> dw < 4294967296 \<and> 0 \<le> height \<and> height < 268435456 \<longrightarrow>
            patch_replace_pattern cw ch dw dh =
              Inr (''B8 '' @ hex_group width @ '' BB '' @ hex_group (height * 16)
                   @ '' B9 '' @ hex_group ((dw - width) div 2) @ '' BA '' @ hex_group width
                   @ '' BE '' @ hex_group height @ '' BF '' @ hex_group width @ '' 90''))
       \<and> (width < 0 \<or> 4294967296 \<le> width \<or> height < 0 \<or> 268435456 \<le> height \<longrightarrow>
            patch_replace_pattern cw ch dw dh = Inl OverflowError)
       \<and> patch_special 1440 = 23040
       \<and> patch_replace_pattern 5120 1440 5120 1440 =
           Inr ''B8 00 14 00 00 BB 00 5A 00 00 B9 00 00 00 00 BA 00 14 00 00 BE A0 05 00 00 BF 00 14 00 00 90''"
proof (intro conjI impI)
  have res: "resolution cw ch dw dh = (width, height)"
    using assms by (simp add: resolution_def)
  show "patch_replace_pattern cw ch dw dh =
              Inr (''B8 '' @ hex_group width @ '' BB '' @ hex_group (height * 16)
                   @ '' B9 '' @ hex_group ((dw - width) div 2) @ '' BA '' @ hex_group width
                   @ '' BE '' @ hex_group height @ '' BF '' @ hex_group width @ '' 90'')"
    if range: "0 \<le> width \<and> width \<le> dw \<and> dw < 4294967296 \<and> 0 \<le> height \<and> height < 268435456"
  proof -
    have off: "patch_offset dw width = Inr ((dw - width) div 2)"
      using range by (intro patch_offset_centered) simp_all
    have "(dw - width) div 2 \<le> dw - width" and "0 \<le> (dw - width) div 2"
      using range by presburger+
    then have "in_u32 (height * 16)" "in_u32 width" "in_u32 height" "in_u32 ((dw - width) div 2)"
      using range by (simp_all add: in_u32_def)
    then show ?thesis
      by (simp add: patch_replace_pattern_cases res off patch_special_def push_bit_eq_mult)
  qed
  show "patch_replace_pattern cw ch dw dh = Inl OverflowError"
    if out: "width < 0 \<or> 4294967296 \<le> width \<or> height < 0 \<or> 268435456 \<le> height"
  proof -
    have no: "\<not> (in_u32 (patch_special height) \<and> in_u32 width \<and> in_u32 height)"
      using out by (auto simp add: in_u32_def patch_special_def push_bit_eq_mult)
    show ?thesis
    proof (cases "patch_offset dw width")
      case (Inl e)
      then show ?thesis
        using patch_offset_error [OF Inl] by (simp add: patch_replace_pattern_cases res)
    next
      case (Inr off)
      then show ?thesis
        using no by (auto simp add: patch_replace_pattern_cases res)
    qed
  qed
  show "patch_special 1440 = 23040"
    by (simp add: patch_special_def push_bit_eq_mult)
  show "patch_replace_pattern 5120 1440 5120 1440 =
       Inr ''B8 00 14 00 00 BB 00 5A 00 00 B9 00 00 00 00 BA 00 14 00 00 BE A0 05 00 00 BF 00 14 00 00 90''"
    by (simp add: patch_replace_pattern_def resolution_def patch_offset_same patch_special_def
        to_bytes4_def hex_tokens_def format_02X_def hex_digit_upper_def)
qed

text \<open>
  For 1280 by 720 on a desktop of 1920 by 1080, where the offset is 320, and for a width
  of \<open>2^32\<close>.
\<close>

theorem replace_pattern_field_order_witness:
  "(1280::int) = (if (1280::int) = 0 \<or> (720::int) = 0 then 1920 else 1280)
   \<and> (720::int) = (if (1280::int) = 0 \<or> (720::int) = 0 then 1080 else 720)
   \<and> (0::int) \<le> 1280 \<and> (1280::int) \<le> 1920 \<and> (1920::int) < 4294967296
   \<and> (0::int) \<le> 720 \<and> (720::int) < 268435456
   \<and> patch_replace_pattern 1280 720 1920 1080 =
       Inr ''B8 00 05 00 00 BB 00 2D 00 00 B9 40 01 00 00 BA 00 05 00 00 BE D0 02 00 00 BF 00 05 00 00 90''
   \<and> (4294967296::int) \<le> 4294967296
   \<and> patch_replace_pattern 4294967296 1440 4294967296 1440 = Inl OverflowError"
  using replace_pattern_field_order [of 1280 1280 720 1920 720 1080]
    replace_pattern_field_order [of 4294967296 4294967296 1440 4294967296 1440 1440]
  by (simp add: hex_group_def hex_pair_def)

text \<open>
  C2 as stated, for every width and height, fails: no string is assembled for 5120 by
  1440 on a desktop 1920 wide, nor for a height of \<open>2^28\<close>, whose shifted value does not
  fit 32 bits.
\<close>

theorem replace_pattern_overflow_counterexample:
  "patch_replace_pattern 5120 1440 1920 1080 = Inl OverflowError
   \<and> patch_replace_pattern 1920 268435456 1920 1080 = Inl OverflowError"
  by (simp add: patch_replace_pattern_def resolution_def patch_offset_def int_truediv2_small
      patch_special_def to_bytes4_def)



section \<open>The executable patcher\<close>

lemma occurs_at_Nil: "occurs_at sub [] i \<longleftrightarrow> sub = [] \<and> i = 0"
  by (auto simp add: occurs_at_def)

lemma occurs_at_Cons_0: "occurs_at sub (x # xs) 0 \<longleftrightarrow> take (length sub) (x # xs) = sub"
proof
  assume "occurs_at sub (x # xs) 0"
  then show "take (length sub) (x # xs) = sub" by (simp add: occurs_at_def)
next
  assume h: "take (length sub) (x # xs) = sub"
  have "length (take (length sub) (x # xs)) = length sub"
    using h by simp
  then have "length sub \<le> length (x # xs)"
    by (simp only: length_take)
  with h show "occurs_at sub (x # xs) 0" by (simp add: occurs_at_def)
qed

lemma occurs_at_Cons_Suc: "occurs_at sub (x # xs) (Suc i) \<longleftrightarrow> occurs_at sub xs i"
  by (simp add: occurs_at_def)

lemma find_from_first:
  "occurs_at sub data i \<Longrightarrow> (\<forall>j<i. \<not> occurs_at sub data j) \<Longrightarrow>
     find_from data sub k = int (k + i)"
proof (induction data arbitrary: i k)
  case Nil
  then show ?case by (simp add: occurs_at_Nil)
next
  case (Cons x xs)
  show ?case
  proof (cases i)
    case 0
    with Cons.prems(1) show ?thesis by (simp add: occurs_at_Cons_0)
  next
    case (Suc i')
    have no0: "take (length sub) (x # xs) \<noteq> sub"
      using Cons.prems(2) Suc by (auto simp add: occurs_at_Cons_0 [symmetric])
    have occ: "occurs_at sub xs i'"
      using Cons.prems(1) Suc by (simp add: occurs_at_Cons_Suc)
    have first: "\<forall>j<i'. \<not> occurs_at sub xs j"
    proof (intro allI impI)
      fix j assume "j < i'"
      then have "\<not> occurs_at sub (x # xs) (Suc j)"
        using Cons.prems(2) Suc by simp
      then show "\<not> occurs_at sub xs j" by (simp add: occurs_at_Cons_Suc)
    qed
    have "find_from xs sub (Suc k) = int (Suc k + i')"
      using occ first by (rule Cons.IH)
    with no0 Suc show ?thesis by simp
  qed
qed

lemma find_from_none:
  "(\<forall>i. \<not> occurs_at sub data i) \<Longrightarrow> find_from data sub k = - 1"
proof (induction data arbitrary: k)
  case Nil
  then show ?case by (auto simp add: occurs_at_Nil)
next
  case (Cons x xs)
  have no0: "take (length sub) (x # xs) \<noteq> sub"
    using Cons.prems by (auto simp add: occurs_at_Cons_0 [symmetric])
  have "\<forall>i. \<not> occurs_at sub xs i"
  proof
    fix i
    have "\<not> occurs_at sub (x # xs) (Suc i)"
      using Cons.prems by blast
    then show "\<not> occurs_at sub xs i" by (simp add: occurs_at_Cons_Suc)
  qed
  then have "find_from xs sub (Suc k) = - 1" by (rule Cons.IH)
  with no0 show ?case by simp
qed

lemma occurs_at_in_occurrences: "occurs_at sub data i \<longleftrightarrow> i \<in> set (occurrences sub data)"
proof -
  have "occurs_at sub data i \<Longrightarrow> i < Suc (length data)"
    by (simp add: occurs_at_def)
  then show ?thesis
    by (auto simp add: occurrences_def simp del: upt_Suc)
qed

lemma py_find_absent: "occurrences sub data = [] \<Longrightarrow> py_find data sub = - 1"
  unfolding py_find_def
  by (rule find_from_none) (simp add: occurs_at_in_occurrences)

lemma py_find_once: "occurrences sub data = [i] \<Longrightarrow> py_find data sub = int i"
  unfolding py_find_def
  using find_from_first [of sub data i 0]
  by (simp add: occurs_at_in_occurrences)

lemma edit_exe_patterns_files:
  "edit_exe_patterns s r w = (x, w') \<Longrightarrow>
     game_file w' = game_file w \<and> patch_txt w' = patch_txt w
     \<and> patch_txt_writable w' = patch_txt_writable w"
  by (auto simp add: edit_exe_patterns_def Let_def py_print_def
      split: sum.splits py_file.splits list.splits)

text \<open>
  C5. When the buffer of the executable does not contain the decoded search pattern
  (the one in effect after the sidecar has been read), \<open>edit_exe\<close> prints the
  "Cannot find" message, returns \<open>None\<close>, and leaves the executable and the sidecar
  as they were.
\<close>

theorem pattern_not_found_no_write:
  assumes "edit_exe_patterns search_pattern replace_pattern w = (Inr (sp, sp1, rp), w')"
    and "game_file w = File data"
    and "occurrences sp1 data = []"
  shows "fst (edit_exe game_path search_pattern replace_pattern w) = Inr None
       \<and> console (snd (edit_exe game_path search_pattern replace_pattern w))
           = console w' @ [CannotFind sp, ReinstallHint]
       \<and> game_file (snd (edit_exe game_path search_pattern replace_pattern w)) = File data
       \<and> patch_txt (snd (edit_exe game_path search_pattern replace_pattern w)) = patch_txt w"
proof -
  have files: "game_file w' = File data" "patch_txt w' = patch_txt w"
    using edit_exe_patterns_files [OF assms(1)] assms(2) by simp_all
  have "py_find data sp1 = - 1"
    using assms(3) by (rule py_find_absent)
  then show ?thesis
    using assms(1) files
    by (simp add: edit_exe_def edit_exe_apply_def py_print_def)
qed

lemma world0_patterns:
  "edit_exe_patterns ''AA BC'' ''01 02'' world0
     = (Inr (''AA BC'', [0xAA, 0xBC], [0x01, 0x02]),
        py_print [PatchTxtNotFound, WillSearchDefault ''AA BC''] world0)"
  by (simp add: edit_exe_patterns_def Let_def world0_def py_strip_def is_space_def
      parse_signature_def py_split_def py_int16_def digit_value_def py_bytes_def)


text \<open>The pattern \<open>AA BC\<close> does not occur in the buffer of \<open>world0\<close>.\<close>

theorem pattern_not_found_no_write_witness:
  "edit_exe_patterns ''AA BC'' ''01 02'' world0
     = (Inr (''AA BC'', [0xAA, 0xBC], [0x01, 0x02]),
        py_print [PatchTxtNotFound, WillSearchDefault ''AA BC''] world0)
   \<and> game_file world0 = File [0x00, 0xAA, 0xBB, 0xCC, 0x00]
   \<and> occurrences [0xAA, 0xBC] [0x00, 0xAA, 0xBB, 0xCC, 0x00] = []
   \<and> fst (edit_exe ''../Valkyria.exe'' ''AA BC'' ''01 02'' world0) = Inr None
   \<and> console (snd (edit_exe ''../Valkyria.exe'' ''AA BC'' ''01 02'' world0))
       = [PatchTxtNotFound, WillSearchDefault ''AA BC'', CannotFind ''AA BC'', ReinstallHint]
   \<and> game_file (snd (edit_exe ''../Valkyria.exe'' ''AA BC'' ''01 02'' world0))
       = File [0x00, 0xAA, 0xBB, 0xCC, 0x00]
   \<and> patch_txt (snd (edit_exe ''../Valkyria.exe'' ''AA BC'' ''01 02'' world0)) = Missing"
proof -
  have h2: "game_file world0 = File [0x00, 0xAA, 0xBB, 0xCC, 0x00]"
    by (simp add: world0_def)
  have h3: "occurrences [0xAA, 0xBC] [0x00, 0xAA, 0xBB, 0xCC, 0x00] = []"
    by (simp add: occurrences_def occurs_at_def upt_rec)
  show ?thesis
    using pattern_not_found_no_write [OF world0_patterns h2 h3, of "''../Valkyria.exe''"]
      world0_patterns h2 h3
    by (simp add: py_print_def world0_def)
qed

lemma occurrences_once:
  assumes "occurrences sub data = [i]"
  shows "occurs_at sub data i" and "\<forall>j<i. \<not> occurs_at sub data j"
  using assms by (auto simp add: occurs_at_in_occurrences)

lemma edit_exe_patterns_default:
  assumes "parse_signature (py_strip search_pattern) = Inr sp0"
    and "parse_signature replace_pattern = Inr rp"
    and "patch_txt w = Missing \<or> patch_txt w = Unreadable"
  shows "\<exists>w'. edit_exe_patterns search_pattern replace_pattern w
                = (Inr (py_strip search_pattern, sp0, rp), w')"
  using assms by (auto simp add: edit_exe_patterns_def Let_def)

lemma edit_exe_patterns_sidecar:
  assumes "parse_signature (py_strip search_pattern) = Inr sp0"
    and "parse_signature replace_pattern = Inr rp"
    and "patch_txt w = File text" and "readlines text = line # rest"
    and "parse_signature (py_strip line) = Inr sp1"
  shows "\<exists>w'. edit_exe_patterns search_pattern replace_pattern w
                = (Inr (py_strip line, sp1, rp), w')"
  using assms by (simp add: edit_exe_patterns_def Let_def)

lemma overwrite_frame_patterns:
  assumes "edit_exe_patterns search_pattern replace_pattern w = (Inr (sp, sp1, rp), w')"
    and "game_file w = File data"
    and "occurrences sp1 data = [i]"
  shows "\<exists>new. game_file (snd (edit_exe game_path search_pattern replace_pattern w)) = File new
           \<and> new = take i data @ rp @ drop (i + length rp) data
           \<and> length new = max (length data) (i + length rp)
           \<and> take i new = take i data
           \<and> take (length rp) (drop i new) = rp
           \<and> drop (i + length rp) new = drop (i + length rp) data"
proof -
  have files: "game_file w' = File data"
    using edit_exe_patterns_files [OF assms(1)] assms(2) by simp
  have found: "py_find data sp1 = int i"
    using assms(3) by (rule py_find_once)
  have i: "i \<le> length data"
    using occurrences_once(1) [OF assms(3)] by (simp add: occurs_at_def)
  have "game_file (snd (edit_exe game_path search_pattern replace_pattern w))
          = File (write_at data i rp)"
    using assms(1) files found
    by (simp add: edit_exe_def edit_exe_apply_def py_print_def Let_def)
  moreover have "length (write_at data i rp) = max (length data) (i + length rp)"
    using i by (simp add: write_at_def)
  moreover have "take i (write_at data i rp) = take i data"
    using i by (simp add: write_at_def)
  moreover have "take (length rp) (drop i (write_at data i rp)) = rp"
    using i by (simp add: write_at_def)
  moreover have "drop (i + length rp) (write_at data i rp) = drop (i + length rp) data"
    using i by (simp add: write_at_def)
  ultimately show ?thesis by (simp add: write_at_def)
qed

text \<open>
  C6. Let \<open>rp\<close> be the decoded replacement pattern and \<open>sp1\<close> the decoded search
  pattern in effect: that of the default pattern when the sidecar is missing or cannot
  be opened, that of the sidecar's first line otherwise. When the buffer of the
  executable contains \<open>sp1\<close> exactly once, at offset \<open>i\<close>, \<open>edit_exe\<close> leaves the
  bytes before \<open>i\<close> unchanged, writes \<open>rp\<close> at \<open>i\<close>, and leaves the bytes from
  \<open>i + len(rp)\<close> on unchanged.
\<close>

theorem overwrite_frame:
  assumes "parse_signature (py_strip search_pattern) = Inr sp0"
    and "parse_signature replace_pattern = Inr rp"
    and "(patch_txt w = Missing \<or> patch_txt w = Unreadable) \<and> sp1 = sp0
         \<or> patch_txt w = File text \<and> readlines text = line # rest
            \<and> parse_signature (py_strip line) = Inr sp1"
    and "game_file w = File data"
    and "occurrences sp1 data = [i]"
  shows "\<exists>new. game_file (snd (edit_exe game_path search_pattern replace_pattern w)) = File new
           \<and> new = take i data @ rp @ drop (i + length rp) data
           \<and> length new = max (length data) (i + length rp)
           \<and> take i new = take i data
           \<and> take (length rp) (drop i new) = rp
           \<and> drop (i + length rp) new = drop (i + length rp) data"
proof -
  obtain sp w' where
    "edit_exe_patterns search_pattern replace_pattern w = (Inr (sp, sp1, rp), w')"
    using assms(3) edit_exe_patterns_default [OF assms(1,2)]
      edit_exe_patterns_sidecar [OF assms(1,2)]
    by blast
  then show ?thesis
    using assms(4,5) by (rule overwrite_frame_patterns)
qed

text \<open>
  In \<open>world0\<close>, without a sidecar, the default pattern \<open>AA BB\<close> occurs once, at
  offset 1; in \<open>world2\<close> the sidecar's pattern \<open>BB CC\<close> occurs once, at offset 2.
\<close>

theorem overwrite_frame_witness:
  "parse_signature (py_strip ''AA BB'') = Inr [0xAA, 0xBB]
   \<and> parse_signature ''01 02'' = Inr [0x01, 0x02]
   \<and> patch_txt world0 = Missing
   \<and> game_file world0 = File [0x00, 0xAA, 0xBB, 0xCC, 0x00]
   \<and> occurrences [0xAA, 0xBB] [0x00, 0xAA, 0xBB, 0xCC, 0x00] = [1]
   \<and> game_file (snd (edit_exe ''../Valkyria.exe'' ''AA BB'' ''01 02'' world0))
       = File [0x00, 0x01, 0x02, 0xCC, 0x00]
   \<and> patch_txt world2 = File ''BB CC''
   \<and> readlines ''BB CC'' = [''BB CC'']
   \<and> parse_signature (py_strip ''BB CC'') = Inr [0xBB, 0xCC]
   \<and> game_file world2 = File [0x00, 0xAA, 0xBB, 0xCC, 0x00]
   \<and> occurrences [0xBB, 0xCC] [0x00, 0xAA, 0xBB, 0xCC, 0x00] = [2]
   \<and> game_file (snd (edit_exe ''../Valkyria.exe'' ''AA BB'' ''01 02'' world2))
       = File [0x00, 0xAA, 0x01, 0x02, 0x00]"
proof -
  have p0: "parse_signature (py_strip ''AA BB'') = Inr [0xAA, 0xBB]"
    by (simp add: py_strip_def is_space_def parse_signature_def py_split_def py_int16_def
        digit_value_def py_bytes_def)
  have p1: "parse_signature ''01 02'' = Inr [0x01, 0x02]"
    by (simp add: is_space_def parse_signature_def py_split_def py_int16_def
        digit_value_def py_bytes_def)
  have p2: "parse_signature (py_strip ''BB CC'') = Inr [0xBB, 0xCC]"
    by (simp add: py_strip_def is_space_def parse_signature_def py_split_def py_int16_def
        digit_value_def py_bytes_def)
  have m: "patch_txt world0 = Missing" and f: "patch_txt world2 = File ''BB CC''"
    by (simp_all add: world0_def world2_def)
  have g0: "game_file world0 = File [0x00, 0xAA, 0xBB, 0xCC, 0x00]"
    and g2: "game_file world2 = File [0x00, 0xAA, 0xBB, 0xCC, 0x00]"
    by (simp_all add: world0_def world2_def)
  have l: "readlines ''BB CC'' = [''BB CC'']"
    by (simp add: readlines_def)
  have o1: "occurrences [0xAA, 0xBB] [0x00, 0xAA, 0xBB, 0xCC, 0x00] = [1]"
    and o2: "occurrences [0xBB, 0xCC] [0x00, 0xAA, 0xBB, 0xCC, 0x00] = [2]"
    by (simp_all add: occurrences_def occurs_at_def upt_rec)
  have c0: "(patch_txt world0 = Missing \<or> patch_txt world0 = Unreadable)
              \<and> [0xAA, 0xBB] = [0xAA, 0xBB :: byte]
            \<or> patch_txt world0 = File [] \<and> readlines [] = [] # []
               \<and> parse_signature (py_strip []) = Inr [0xAA, 0xBB]"
    using m by simp
  have c2: "(patch_txt world2 = Missing \<or> patch_txt world2 = Unreadable)
              \<and> [0xBB, 0xCC] = [0xAA, 0xBB :: byte]
            \<or> patch_txt world2 = File ''BB CC'' \<and> readlines ''BB CC'' = ''BB CC'' # []
               \<and> parse_signature (py_strip ''BB CC'') = Inr [0xBB, 0xCC]"
    using f l p2 by simp
  show ?thesis
    using overwrite_frame [OF p0 p1 c0 g0 o1, of "''../Valkyria.exe''"]
      overwrite_frame [OF p0 p1 c2 g2 o2, of "''../Valkyria.exe''"]
      p0 p1 p2 m f g0 g2 l o1 o2
    by simp
qed

lemma edit_exe_result_None: "fst (edit_exe game_path s r w) = Inr x \<Longrightarrow> x = None"
  by (auto simp add: edit_exe_def edit_exe_apply_def Let_def
      split: prod.splits sum.splits py_file.splits if_splits)

text \<open>
  C4. The claim asks that a successful run return the offset of the first occurrence.
  The code departs from it: in \<open>world1\<close> the search pattern is found at offset 2 and
  the replacement is written there, but \<open>edit_exe\<close> returns \<open>None\<close>.
\<close>

theorem edit_exe_returns_None_on_match:
  "py_find [0x55, 0x8B,
            0xB8, 0x39, 0x8E, 0xE3, 0x38, 0xF7, 0xE3, 0x8B, 0xFA, 0xB8, 0x39, 0x8E, 0xE3, 0x38,
            0xF7, 0xEB, 0xD1, 0xFA, 0x8B, 0xC2, 0xC1, 0xE8, 0x1F, 0x03, 0xC2, 0x2B, 0xC8,
            0xD1, 0xEF, 0xD1, 0xF9, 0xC3]
           [0xB8, 0x39, 0x8E, 0xE3, 0x38, 0xF7, 0xE3, 0x8B, 0xFA, 0xB8, 0x39, 0x8E, 0xE3, 0x38] = 2
   \<and> edit_exe ''../Valkyria.exe'' search_pattern1
       ''B8 00 14 00 00 BB 00 5A 00 00 B9 00 00 00 00 BA 00 14 00 00 BE A0 05 00 00 BF 00 14 00 00 90''
       world1
     = (Inr None,
        \<lparr>patch_txt = File ''B8 00 14 00 00 BB 00 5A 00 00 B9 00 00 00 00 BA 00 14 00 00 BE A0 05 00 00 BF 00 14 00 00 90'',
         patch_txt_writable = True,
         game_file = File [0x55, 0x8B,
           0xB8, 0x00, 0x14, 0x00, 0x00, 0xBB, 0x00, 0x5A, 0x00, 0x00, 0xB9, 0x00, 0x00, 0x00, 0x00,
           0xBA, 0x00, 0x14, 0x00, 0x00, 0xBE, 0xA0, 0x05, 0x00, 0x00, 0xBF, 0x00, 0x14, 0x00, 0x00,
           0x90, 0xC3],
         console = [PatchTxtNotFound, WillSearchDefault search_pattern1,
                    Found search_pattern1 2,
                    Replaced ''B8 00 14 00 00 BB 00 5A 00 00 B9 00 00 00 00 BA 00 14 00 00 BE A0 05 00 00 BF 00 14 00 00 90'' 2]\<rparr>)"
  by (simp add: py_find_def edit_exe_def edit_exe_patterns_def edit_exe_apply_def Let_def
      world1_def search_pattern1_def py_strip_def is_space_def py_print_def write_at_def
      parse_signature_def py_split_def py_int16_def digit_value_def py_bytes_def)

text \<open>
  C10 (amended). When the default search pattern and the replacement pattern decode and
  \<open>patch.txt\<close> exists but is empty, \<open>edit_exe\<close> stops with an uncaught
  \<open>IndexError\<close> right after printing "patch.txt found": the executable is neither
  searched nor written, and the sidecar stays as it is. The branch that reads the
  sidecar catches only a missing file and an I/O error, after which the default pattern
  is used: the \<open>ValueError\<close> of a first line that does not decode is not caught
  either.
\<close>

theorem empty_sidecar_IndexError:
  assumes "parse_signature (py_strip search_pattern) = Inr sp1"
    and "parse_signature replace_pattern = Inr rp"
  shows "(patch_txt w = File [] \<longrightarrow>
            edit_exe game_path search_pattern replace_pattern w
              = (Inl IndexError, py_print [PatchTxtFound] w)
            \<and> game_file (snd (edit_exe game_path search_pattern replace_pattern w)) = game_file w
            \<and> patch_txt (snd (edit_exe game_path search_pattern replace_pattern w)) = patch_txt w)
       \<and> (patch_txt w = File text \<and> readlines text = line # rest
            \<and> parse_signature (py_strip line) = Inl ValueError \<longrightarrow>
            edit_exe game_path search_pattern replace_pattern w
              = (Inl ValueError, py_print [PatchTxtFound, WillSearch (py_strip line)] w))
       \<and> (patch_txt w = Missing \<or> patch_txt w = Unreadable \<longrightarrow>
            fst (edit_exe_patterns search_pattern replace_pattern w)
              = Inr (py_strip search_pattern, sp1, rp))"
  using assms
  by (auto simp add: edit_exe_def edit_exe_patterns_def Let_def readlines_def py_print_def)

text \<open>
  An empty sidecar beside the files of \<open>world0\<close>, a sidecar holding \<open>ZZ\<close>, and
  \<open>world0\<close> itself.
\<close>

theorem empty_sidecar_IndexError_witness:
  "parse_signature (py_strip ''AA BB'') = Inr [0xAA, 0xBB]
   \<and> parse_signature ''01 02'' = Inr [0x01, 0x02]
   \<and> patch_txt (world0\<lparr>patch_txt := File []\<rparr>) = File []
   \<and> edit_exe ''../Valkyria.exe'' ''AA BB'' ''01 02'' (world0\<lparr>patch_txt := File []\<rparr>)
       = (Inl IndexError, py_print [PatchTxtFound] (world0\<lparr>patch_txt := File []\<rparr>))
   \<and> game_file (snd (edit_exe ''../Valkyria.exe'' ''AA BB'' ''01 02''
                         (world0\<lparr>patch_txt := File []\<rparr>)))
       = File [0x00, 0xAA, 0xBB, 0xCC, 0x00]
   \<and> patch_txt (world0\<lparr>patch_txt := File ''ZZ''\<rparr>) = File ''ZZ''
   \<and> readlines ''ZZ'' = [''ZZ'']
   \<and> parse_signature (py_strip ''ZZ'') = Inl ValueError
   \<and> edit_exe ''../Valkyria.exe'' ''AA BB'' ''01 02'' (world0\<lparr>patch_txt := File ''ZZ''\<rparr>)
       = (Inl ValueError,
          py_print [PatchTxtFound, WillSearch ''ZZ''] (world0\<lparr>patch_txt := File ''ZZ''\<rparr>))
   \<and> patch_txt world0 = Missing
   \<and> fst (edit_exe_patterns ''AA BB'' ''01 02'' world0) = Inr (''AA BB'', [0xAA, 0xBB], [0x01, 0x02])"
proof -
  have h1: "parse_signature (py_strip ''AA BB'') = Inr [0xAA, 0xBB]"
    by (simp add: py_strip_def is_space_def parse_signature_def py_split_def py_int16_def
        digit_value_def py_bytes_def)
  have h2: "parse_signature ''01 02'' = Inr [0x01, 0x02]"
    by (simp add: is_space_def parse_signature_def py_split_def py_int16_def
        digit_value_def py_bytes_def)
  have s: "py_strip ''AA BB'' = ''AA BB''" "py_strip ''ZZ'' = ''ZZ''"
    by (simp_all add: py_strip_def is_space_def)
  have z: "parse_signature (py_strip ''ZZ'') = Inl ValueError"
    by (simp add: py_strip_def is_space_def parse_signature_def py_split_def py_int16_def
        digit_value_def)
  have l: "readlines ''ZZ'' = [''ZZ'']"
    by (simp add: readlines_def)
  show ?thesis
    using empty_sidecar_IndexError [OF h1 h2,
        of "world0\<lparr>patch_txt := File []\<rparr>" "''../Valkyria.exe''"]
      empty_sidecar_IndexError [OF h1 h2,
        of "world0\<lparr>patch_txt := File ''ZZ''\<rparr>" "''../Valkyria.exe''" "''ZZ''" "''ZZ''" "[]"]
      empty_sidecar_IndexError [OF h1 h2, of world0 "''../Valkyria.exe''"] h1 h2 s z l
    by (simp add: world0_def py_print_def)
qed

text \<open>
  C10 as stated fails when a pattern passed to \<open>edit_exe\<close> does not decode: with the
  search pattern \<open>ZZ\<close> and an empty sidecar the error is the \<open>ValueError\<close> of
  line 133, raised before the sidecar is opened.
\<close>

theorem empty_sidecar_ValueError_counterexample:
  "patch_txt (world0\<lparr>patch_txt := File []\<rparr>) = File []
   \<and> edit_exe ''../Valkyria.exe'' ''ZZ'' ''01 02'' (world0\<lparr>patch_txt := File []\<rparr>)
       = (Inl ValueError, world0\<lparr>patch_txt := File []\<rparr>)"
  by (simp add: edit_exe_def edit_exe_patterns_def Let_def py_strip_def is_space_def
      parse_signature_def py_split_def py_int16_def digit_value_def)

section \<open>The signature codec\<close>

lemma parse_tokens_step:
  "parse_tokens (t # ts) acc =
     (case token_int t of None \<Rightarrow> Inl ValueError | Some v \<Rightarrow> parse_tokens ts (acc @ [v]))"
  by (simp add: token_int_def wildcard_def)

lemma parse_tokens_eq:
  "parse_tokens ts acc =
     (if list_all (\<lambda>t. token_int t \<noteq> None) ts then Inr (acc @ map (\<lambda>t. the (token_int t)) ts)
      else Inl ValueError)"
proof (induction ts arbitrary: acc)
  case Nil
  show ?case by simp
next
  case (Cons t ts)
  show ?case
  proof (cases "token_int t")
    case None
    then show ?thesis by (simp only: parse_tokens_step) simp
  next
    case (Some v)
    then show ?thesis by (simp only: parse_tokens_step Cons.IH) simp
  qed
qed

lemma py_bytes_Cons:
  "py_bytes (v # vs) =
     (if 0 \<le> v \<and> v < 256
      then (case py_bytes vs of Inl e \<Rightarrow> Inl e | Inr bs \<Rightarrow> Inr (word_of_int v # bs))
      else Inl ValueError)"
  by (simp add: py_bytes_def)

lemma py_bytes_tokens:
  "list_all (\<lambda>t. token_int t \<noteq> None) ts \<Longrightarrow>
     py_bytes (map (\<lambda>t. the (token_int t)) ts) =
       (if list_all token_ok ts then Inr (map token_byte ts) else Inl ValueError)"
proof (induction ts)
  case Nil
  show ?case by (simp add: py_bytes_def)
next
  case (Cons t ts)
  from Cons.prems obtain v where v: "token_int t = Some v"
    by auto
  have rest: "py_bytes (map (\<lambda>t. the (token_int t)) ts) =
       (if list_all token_ok ts then Inr (map token_byte ts) else Inl ValueError)"
    using Cons.prems by (intro Cons.IH) simp
  have ok: "token_ok t \<longleftrightarrow> 0 \<le> v \<and> v < 256"
    by (simp add: token_ok_def v)
  have byte: "token_byte t = word_of_int v"
    by (simp add: token_byte_def v)
  show ?case
    using rest by (simp add: py_bytes_Cons v ok byte)
qed

lemma token_ok_int: "token_ok t \<Longrightarrow> token_int t \<noteq> None"
  by (cases "token_int t") (simp_all add: token_ok_def)

lemma parse_signature_tokens:
  "parse_signature s =
     (if list_all token_ok (py_split s) then Inr (map token_byte (py_split s))
      else Inl ValueError)"
proof (cases "list_all (\<lambda>t. token_int t \<noteq> None) (py_split s)")
  case True
  then show ?thesis
    by (simp add: parse_signature_def parse_tokens_eq py_bytes_tokens)
next
  case False
  then have "\<not> list_all token_ok (py_split s)"
    by (auto simp add: list_all_iff dest: token_ok_int)
  with False show ?thesis
    by (simp add: parse_signature_def parse_tokens_eq)
qed

lemma digit_value_char:
  assumes "digit_value c = Some d"
  shows "d < 16" and "c \<noteq> CHR ''-''" and "c \<noteq> CHR ''+''" and "c \<noteq> CHR ''_''"
    and "c \<noteq> CHR ''x''" and "c \<noteq> CHR ''X''" and "c \<noteq> CHR ''?''" and "\<not> is_space c"
    and "c \<noteq> CHR 0x0A"
  using assms by (auto simp add: digit_value_def is_space_def Let_def split: if_splits)

lemma py_int16_two_digits:
  assumes "digit_value a = Some da" and "digit_value b = Some db"
  shows "py_int16 [a, b] = Some (int (16 * da + db))"
  using assms digit_value_char(2-6) [OF assms(1)] digit_value_char(2-6) [OF assms(2)]
  by (simp add: py_int16_def)

lemma hex_digit_value: "hex_digit c \<Longrightarrow> \<exists>d. digit_value c = Some d"
  by (auto simp add: hex_digit_def digit_value_def)

lemma upper_hex_digit_value:
  "upper_hex_digit c \<Longrightarrow> \<exists>d<16. digit_value c = Some d \<and> hex_digit_upper d = c"
  by (auto simp add: upper_hex_digit_def digit_value_def hex_digit_upper_def)


lemma split_acc_token:
  "list_all (\<lambda>c. \<not> is_space c) t \<Longrightarrow> split_acc (t @ rest) cur = split_acc rest (cur @ t)"
  by (induction t arbitrary: cur) simp_all

lemma py_split_join:
  "list_all (\<lambda>t. t \<noteq> [] \<and> list_all (\<lambda>c. \<not> is_space c) t) ts \<Longrightarrow> py_split (join_sp ts) = ts"
proof (induction ts rule: join_sp.induct)
  case 1
  show ?case by (simp add: py_split_def)
next
  case (2 x)
  then have "split_acc (x @ []) [] = split_acc [] ([] @ x)"
    by (intro split_acc_token) simp
  with 2 show ?case by (simp add: py_split_def)
next
  case (3 x y ys)
  have x: "x \<noteq> []" "list_all (\<lambda>c. \<not> is_space c) x"
    using "3.prems" by simp_all
  have rest: "split_acc (join_sp (y # ys)) [] = y # ys"
    using "3.IH" "3.prems" by (simp add: py_split_def)
  have "split_acc (x @ CHR '' '' # join_sp (y # ys)) []
          = split_acc (CHR '' '' # join_sp (y # ys)) ([] @ x)"
    using x(2) by (rule split_acc_token)
  also have "\<dots> = x # split_acc (join_sp (y # ys)) []"
    using x(1) by (simp add: is_space_def)
  finally show ?case
    using rest by (simp add: py_split_def)
qed

lemma upper_hex_byte_tokenE:
  assumes "upper_hex_byte_token t"
  obtains a b da db where "t = [a, b]" and "digit_value a = Some da" and "digit_value b = Some db"
    and "da < 16" and "db < 16" and "hex_digit_upper da = a" and "hex_digit_upper db = b"
proof -
  from assms obtain a b where t: "t = [a, b]" and "upper_hex_digit a" and "upper_hex_digit b"
    by (cases t rule: upper_hex_byte_token.cases) simp_all
  then show ?thesis
    using that upper_hex_digit_value by blast
qed

lemma two_digits_token:
  assumes "digit_value a = Some da" and "digit_value b = Some db"
  shows "\<not> wildcard [a, b]" and "token_int [a, b] = Some (int (16 * da + db))"
    and "token_ok [a, b]" and "unat (token_byte [a, b]) = 16 * da + db"
    and "[a, b] \<noteq> []" and "list_all (\<lambda>c. \<not> is_space c) [a, b]"
proof -
  show w: "\<not> wildcard [a, b]"
    using digit_value_char(7) [OF assms(1)] by (simp add: wildcard_def)
  show i: "token_int [a, b] = Some (int (16 * da + db))"
    using w py_int16_two_digits [OF assms] by (simp add: token_int_def)
  have bound: "16 * da + db < 256"
    using digit_value_char(1) [OF assms(1)] digit_value_char(1) [OF assms(2)] by simp
  show "token_ok [a, b]"
    using bound by (simp add: token_ok_def i)
  have "nat (int (16 * da + db) mod 256) = 16 * da + db"
    using bound by (simp add: nat_mod_distrib)
  then show "unat (token_byte [a, b]) = 16 * da + db"
    by (simp only: token_byte_def i option.case unat_byte_of_int)
  show "[a, b] \<noteq> []" by simp
  show "list_all (\<lambda>c. \<not> is_space c) [a, b]"
    using digit_value_char(8) [OF assms(1)] digit_value_char(8) [OF assms(2)] by simp
qed

lemma upper_token_roundtrip:
  assumes "upper_hex_byte_token t"
  shows "token_ok t" and "format_02X (token_byte t) = t" and "\<not> wildcard t"
    and "t \<noteq> []" and "list_all (\<lambda>c. \<not> is_space c) t"
proof -
  from assms obtain a b da db where t: "t = [a, b]"
    and a: "digit_value a = Some da" and b: "digit_value b = Some db"
    and bounds: "da < 16" "db < 16" and up: "hex_digit_upper da = a" "hex_digit_upper db = b"
    by (rule upper_hex_byte_tokenE)
  show "token_ok t" "\<not> wildcard t" "t \<noteq> []" "list_all (\<lambda>c. \<not> is_space c) t"
    using two_digits_token [OF a b] by (simp_all add: t)
  have "unat (token_byte t) = 16 * da + db"
    using two_digits_token(4) [OF a b] by (simp add: t)
  then show "format_02X (token_byte t) = t"
    using bounds up by (simp add: format_02X_def t)
qed

lemma wildcard_token:
  assumes "wildcard t"
  shows "token_ok t" and "token_byte t = 0" and "format_02X (token_byte t) = ''00''"
    and "t \<noteq> []" and "list_all (\<lambda>c. \<not> is_space c) t"
  using assms
  by (auto simp add: wildcard_def token_ok_def token_byte_def token_int_def format_02X_def
      hex_digit_upper_def is_space_def)

lemma signature_token_facts:
  assumes "signature_token t"
  shows "token_ok t" and "format_02X (token_byte t) = canonical t"
    and "t \<noteq> [] \<and> list_all (\<lambda>c. \<not> is_space c) t"
proof -
  show "token_ok t"
    using assms upper_token_roundtrip(1) wildcard_token(1) by (auto simp add: signature_token_def)
  show "format_02X (token_byte t) = canonical t"
    using assms upper_token_roundtrip(2,3) wildcard_token(3)
    by (auto simp add: signature_token_def canonical_def)
  show "t \<noteq> [] \<and> list_all (\<lambda>c. \<not> is_space c) t"
    using assms upper_token_roundtrip(4,5) wildcard_token(4,5)
    by (auto simp add: signature_token_def)
qed

text \<open>
  C9 (amended). For a signature made of tokens separated by single spaces, each token
  either two uppercase hexadecimal digits or a wildcard, decoding with
  \<open>parse_signature\<close> and formatting the bytes again as uppercase two-digit tokens
  separated by spaces gives the signature back, with \<open>00\<close> in the place of every
  wildcard.
\<close>

theorem reencode_canonical:
  assumes "list_all signature_token ts"
  shows "reencode (join_sp ts) = Inr (join_sp (map canonical ts))"
proof -
  have plain: "list_all (\<lambda>t. t \<noteq> [] \<and> list_all (\<lambda>c. \<not> is_space c) t) ts"
    using assms signature_token_facts(3) by (auto simp add: list_all_iff)
  have split: "py_split (join_sp ts) = ts"
    using plain by (rule py_split_join)
  have ok: "list_all token_ok ts"
    using assms signature_token_facts(1) by (simp add: list_all_iff)
  have m: "map format_02X (map token_byte ts) = map canonical ts"
    using assms signature_token_facts(2) by (simp add: list_all_iff)
  have "hex_tokens (map token_byte ts) = join_sp (map canonical ts)"
    unfolding hex_tokens_def by (simp only: m)
  then show ?thesis
    by (simp add: reencode_def parse_signature_tokens split ok)
qed

text \<open>The signature \<open>B8 ?? 0F ?\<close> re-encodes to \<open>B8 00 0F 00\<close>.\<close>

theorem reencode_canonical_witness:
  "list_all signature_token [''B8'', ''??'', ''0F'', ''?'']
   \<and> reencode (join_sp [''B8'', ''??'', ''0F'', ''?''])
       = Inr (join_sp (map canonical [''B8'', ''??'', ''0F'', ''?'']))
   \<and> join_sp [''B8'', ''??'', ''0F'', ''?''] = ''B8 ?? 0F ?''
   \<and> join_sp (map canonical [''B8'', ''??'', ''0F'', ''?'']) = ''B8 00 0F 00''"
proof -
  have h: "list_all signature_token [''B8'', ''??'', ''0F'', ''?'']"
    by (simp add: signature_token_def upper_hex_digit_def wildcard_def)
  show ?thesis
    using reencode_canonical [OF h] h by (simp add: canonical_def wildcard_def)
qed

text \<open>
  C9 as stated fails on lowercase digits: \<open>b8 39\<close> is made of two-digit hexadecimal
  tokens, and re-encodes to \<open>B8 39\<close>.
\<close>

theorem reencode_lowercase_counterexample:
  "list_all hex_byte_token [''b8'', ''39'']
   \<and> join_sp [''b8'', ''39''] = ''b8 39''
   \<and> reencode ''b8 39'' = Inr ''B8 39''
   \<and> reencode ''b8 39'' \<noteq> Inr ''b8 39''"
  by (simp add: hex_digit_def reencode_def parse_signature_def py_split_def is_space_def
      py_int16_def digit_value_def py_bytes_def hex_tokens_def format_02X_def hex_digit_upper_def)



















section \<open>The search and replacement buffers\<close>

lemma hex_digit_upper_digit:
  assumes "d < 16"
  shows "digit_value (hex_digit_upper d) = Some d" and "upper_hex_digit (hex_digit_upper d)"
proof -
  have "d = 0 \<or> d = 1 \<or> d = 2 \<or> d = 3 \<or> d = 4 \<or> d = 5 \<or> d = 6 \<or> d = 7 \<or> d = 8
        \<or> d = 9 \<or> d = 10 \<or> d = 11 \<or> d = 12 \<or> d = 13 \<or> d = 14 \<or> d = 15"
    using assms by arith
  then show "digit_value (hex_digit_upper d) = Some d" and "upper_hex_digit (hex_digit_upper d)"
    by (elim disjE; simp add: hex_digit_upper_def digit_value_def upper_hex_digit_def)+
qed

lemma format_02X_token:
  shows "upper_hex_byte_token (format_02X b)" and "token_byte (format_02X b) = b"
proof -
  have hi: "unat b div 16 < 16"
    using unsigned_less [of b, where ?'a = nat] by simp
  have lo: "unat b mod 16 < 16"
    by simp
  show "upper_hex_byte_token (format_02X b)"
    using hex_digit_upper_digit(2) [OF hi] hex_digit_upper_digit(2) [OF lo]
    by (simp add: format_02X_def)
  have "unat (token_byte (format_02X b)) = 16 * (unat b div 16) + unat b mod 16"
    unfolding format_02X_def
    using hex_digit_upper_digit(1) [OF hi] hex_digit_upper_digit(1) [OF lo]
    by (rule two_digits_token(4))
  then have "unat (token_byte (format_02X b)) = unat b"
    by simp
  then show "token_byte (format_02X b) = b"
    by (simp only: word_unat_eq_iff)
qed

lemma parse_signature_hex_tokens: "parse_signature (hex_tokens bs) = Inr bs"
proof -
  have sig: "list_all signature_token (map format_02X bs)"
    using format_02X_token(1) by (simp add: list_all_iff signature_token_def)
  have plain: "list_all (\<lambda>t. t \<noteq> [] \<and> list_all (\<lambda>c. \<not> is_space c) t) (map format_02X bs)"
    using sig signature_token_facts(3) by (auto simp add: list_all_iff)
  have split: "py_split (hex_tokens bs) = map format_02X bs"
    unfolding hex_tokens_def using plain by (rule py_split_join)
  have ok: "list_all token_ok (map format_02X bs)"
    using sig signature_token_facts(1) by (auto simp add: list_all_iff)
  have "map token_byte (map format_02X bs) = bs"
    by (simp add: format_02X_token(2) comp_def)
  then show ?thesis
    by (simp only: parse_signature_tokens split ok if_True)
qed

lemma dropWhile_hd: "s \<noteq> [] \<Longrightarrow> \<not> P (hd s) \<Longrightarrow> dropWhile P s = s"
  by (cases s) simp_all

lemma py_strip_id:
  assumes "s \<noteq> []" and "\<not> is_space (hd s)" and "\<not> is_space (last s)"
  shows "py_strip s = s"
proof -
  have "dropWhile is_space s = s"
    using assms(1,2) by (rule dropWhile_hd)
  moreover have "dropWhile is_space (rev s) = rev s"
    using assms(1,3) by (intro dropWhile_hd) (simp_all add: hd_rev)
  ultimately show ?thesis
    by (simp add: py_strip_def)
qed

lemma readlines_acc_one_line:
  "CHR 0x0A \<notin> set s \<Longrightarrow> readlines_acc s cur = (if cur @ s = [] then [] else [cur @ s])"
  by (induction s arbitrary: cur) auto

lemma join_sp_ends:
  assumes "ts \<noteq> []"
    and "list_all (\<lambda>t. t \<noteq> [] \<and> list_all (\<lambda>c. \<not> is_space c) t) ts"
  shows "join_sp ts \<noteq> [] \<and> \<not> is_space (hd (join_sp ts)) \<and> \<not> is_space (last (join_sp ts))"
  using assms
proof (induction ts rule: join_sp.induct)
  case 1
  then show ?case by simp
next
  case (2 x)
  then have "x \<noteq> []" and "\<forall>c\<in>set x. \<not> is_space c"
    by (simp_all add: list_all_iff)
  then show ?case
    using hd_in_set [of x] last_in_set [of x] by simp
next
  case (3 x y ys)
  have x: "x \<noteq> []" "\<not> is_space (hd x)"
    using "3.prems"(2) by (cases x; simp)+
  have "join_sp (y # ys) \<noteq> [] \<and> \<not> is_space (last (join_sp (y # ys)))"
    using "3.IH" "3.prems"(2) by simp
  then show ?case
    using x by simp
qed

lemma join_sp_chars:
  "c \<in> set (join_sp ts) \<Longrightarrow> c = CHR '' '' \<or> (\<exists>t\<in>set ts. c \<in> set t)"
  by (induction ts rule: join_sp.induct) auto

lemma hex_tokens_one_line:
  assumes "bs \<noteq> []"
  shows "readlines (hex_tokens bs) = [hex_tokens bs]" and "py_strip (hex_tokens bs) = hex_tokens bs"
proof -
  have sig: "list_all signature_token (map format_02X bs)"
    using format_02X_token(1) by (simp add: list_all_iff signature_token_def)
  have plain: "list_all (\<lambda>t. t \<noteq> [] \<and> list_all (\<lambda>c. \<not> is_space c) t) (map format_02X bs)"
    using sig signature_token_facts(3) by (auto simp add: list_all_iff)
  have ends: "hex_tokens bs \<noteq> [] \<and> \<not> is_space (hd (hex_tokens bs))
                \<and> \<not> is_space (last (hex_tokens bs))"
    unfolding hex_tokens_def using assms plain by (intro join_sp_ends) simp_all
  then show "py_strip (hex_tokens bs) = hex_tokens bs"
    by (intro py_strip_id) simp_all
  have "CHR 0x0A \<notin> set (hex_tokens bs)"
  proof
    assume "CHR 0x0A \<in> set (hex_tokens bs)"
    then have "\<exists>t\<in>set (map format_02X bs). CHR 0x0A \<in> set t"
      unfolding hex_tokens_def using join_sp_chars [of "CHR 0x0A" "map format_02X bs"] by simp
    then obtain t where "t \<in> set (map format_02X bs)" and nl: "CHR 0x0A \<in> set t"
      by blast
    then have "list_all (\<lambda>c. \<not> is_space c) t"
      using plain by (auto simp add: list_all_iff)
    then have "\<not> is_space (CHR 0x0A)"
      using nl by (simp add: list_all_iff)
    then show False
      by (simp add: is_space_def)
  qed
  then show "readlines (hex_tokens bs) = [hex_tokens bs]"
    using ends by (simp add: readlines_def readlines_acc_one_line)
qed

lemma patch_replace_pattern_tokens:
  assumes "patch_replace_pattern cw ch dw dh = Inr pat"
  obtains bs where "length bs = 31" and "pat = hex_tokens bs"
proof -
  from assms obtain w0 w1 w2 w3 s0 s1 s2 s3 o0 o1 o2 o3 h0 h1 h2 h3 where
    "pat = ''B8 '' @ hex_tokens [w0, w1, w2, w3] @ '' BB '' @ hex_tokens [s0, s1, s2, s3]
           @ '' B9 '' @ hex_tokens [o0, o1, o2, o3] @ '' BA '' @ hex_tokens [w0, w1, w2, w3]
           @ '' BE '' @ hex_tokens [h0, h1, h2, h3] @ '' BF '' @ hex_tokens [w0, w1, w2, w3]
           @ '' 90''"
    unfolding patch_replace_pattern_def to_bytes4_cases
    by (auto split: prod.splits sum.splits if_splits)
  then have "pat = hex_tokens ([0xB8, w0, w1, w2, w3, 0xBB, s0, s1, s2, s3, 0xB9, o0, o1, o2, o3,
                                0xBA, w0, w1, w2, w3, 0xBE, h0, h1, h2, h3, 0xBF, w0, w1, w2, w3,
                                0x90])"
    by (simp add: hex_tokens_def format_02X_def hex_digit_upper_def)
  then show ?thesis
    by (intro that [of "[0xB8, w0, w1, w2, w3, 0xBB, s0, s1, s2, s3, 0xB9, o0, o1, o2, o3,
                         0xBA, w0, w1, w2, w3, 0xBE, h0, h1, h2, h3, 0xBF, w0, w1, w2, w3,
                         0x90]"]) simp_all
qed


lemma default_search_bytes:
  "parse_signature (py_strip search_pattern1)
     = Inr [0xB8, 0x39, 0x8E, 0xE3, 0x38, 0xF7, 0xE3, 0x8B, 0xFA, 0xB8, 0x39, 0x8E, 0xE3, 0x38]"
  by (simp add: search_pattern1_def py_strip_def parse_signature_def py_split_def is_space_def
      py_int16_def digit_value_def py_bytes_def)

text \<open>
  C3 (amended). For a replacement pattern produced by the patch calculator, the
  replacement buffer has 31 bytes. When \<open>patch.txt\<close> is missing or cannot be opened,
  the search buffer is that of the default pattern and has 14 bytes; when \<open>patch.txt\<close>
  holds a pattern produced by the calculator, as an earlier run leaves it, the search
  buffer has 31 bytes too.
\<close>

theorem search_and_replacement_lengths:
  assumes "patch_replace_pattern cw ch dw dh = Inr pat"
  shows "(patch_txt w = Missing \<or> patch_txt w = Unreadable \<longrightarrow>
            buffer_lengths (fst (edit_exe_patterns search_pattern1 pat w)) = Some (14, 31))
       \<and> (patch_replace_pattern cw' ch' dw' dh' = Inr old \<and> patch_txt w = File old \<longrightarrow>
            buffer_lengths (fst (edit_exe_patterns search_pattern1 pat w)) = Some (31, 31))"
proof (intro conjI impI)
  obtain bs where bs: "length bs = 31" "pat = hex_tokens bs"
    using assms by (rule patch_replace_pattern_tokens)
  have rp: "parse_signature pat = Inr bs"
    by (simp only: bs(2) parse_signature_hex_tokens)
  show "buffer_lengths (fst (edit_exe_patterns search_pattern1 pat w)) = Some (14, 31)"
    if "patch_txt w = Missing \<or> patch_txt w = Unreadable"
    using that bs(1)
    by (auto simp add: edit_exe_patterns_def Let_def default_search_bytes rp buffer_lengths_def)
  assume old: "patch_replace_pattern cw' ch' dw' dh' = Inr old \<and> patch_txt w = File old"
  then obtain bs' where bs': "length bs' = 31" "old = hex_tokens bs'"
    using patch_replace_pattern_tokens by blast
  have ne: "bs' \<noteq> []"
    using bs'(1) by auto
  have line: "readlines old = [old]" "py_strip old = old" "parse_signature old = Inr bs'"
    using hex_tokens_one_line [OF ne] by (simp_all only: bs'(2) parse_signature_hex_tokens)
  show "buffer_lengths (fst (edit_exe_patterns search_pattern1 pat w)) = Some (31, 31)"
    using old bs(1) bs'(1)
    by (simp add: edit_exe_patterns_def Let_def default_search_bytes rp line buffer_lengths_def)
qed

lemma pattern_5120:
  "patch_replace_pattern 5120 1440 5120 1440 =
     Inr ''B8 00 14 00 00 BB 00 5A 00 00 B9 00 00 00 00 BA 00 14 00 00 BE A0 05 00 00 BF 00 14 00 00 90''"
  by (simp add: patch_replace_pattern_def resolution_def patch_offset_same patch_special_def
      to_bytes4_def hex_tokens_def format_02X_def hex_digit_upper_def)

lemma pattern_1080:
  "patch_replace_pattern 1920 1080 1920 1080 =
     Inr ''B8 80 07 00 00 BB 80 43 00 00 B9 00 00 00 00 BA 80 07 00 00 BE 38 04 00 00 BF 80 07 00 00 90''"
  by (simp add: patch_replace_pattern_def resolution_def patch_offset_same patch_special_def
      to_bytes4_def hex_tokens_def format_02X_def hex_digit_upper_def)

text \<open>
  In \<open>world1\<close>, without a sidecar, and in \<open>world1\<close> with the pattern for 1920 by
  1080 in the sidecar.
\<close>

theorem search_and_replacement_lengths_witness:
  "patch_replace_pattern 5120 1440 5120 1440 =
     Inr ''B8 00 14 00 00 BB 00 5A 00 00 B9 00 00 00 00 BA 00 14 00 00 BE A0 05 00 00 BF 00 14 00 00 90''
   \<and> patch_txt world1 = Missing
   \<and> buffer_lengths (fst (edit_exe_patterns search_pattern1
        ''B8 00 14 00 00 BB 00 5A 00 00 B9 00 00 00 00 BA 00 14 00 00 BE A0 05 00 00 BF 00 14 00 00 90''
        world1)) = Some (14, 31)
   \<and> patch_replace_pattern 1920 1080 1920 1080 =
     Inr ''B8 80 07 00 00 BB 80 43 00 00 B9 00 00 00 00 BA 80 07 00 00 BE 38 04 00 00 BF 80 07 00 00 90''
   \<and> patch_txt (world1\<lparr>patch_txt :=
        File ''B8 80 07 00 00 BB 80 43 00 00 B9 00 00 00 00 BA 80 07 00 00 BE 38 04 00 00 BF 80 07 00 00 90''\<rparr>)
       = File ''B8 80 07 00 00 BB 80 43 00 00 B9 00 00 00 00 BA 80 07 00 00 BE 38 04 00 00 BF 80 07 00 00 90''
   \<and> buffer_lengths (fst (edit_exe_patterns search_pattern1
        ''B8 00 14 00 00 BB 00 5A 00 00 B9 00 00 00 00 BA 00 14 00 00 BE A0 05 00 00 BF 00 14 00 00 90''
        (world1\<lparr>patch_txt :=
           File ''B8 80 07 00 00 BB 80 43 00 00 B9 00 00 00 00 BA 80 07 00 00 BE 38 04 00 00 BF 80 07 00 00 90''\<rparr>)))
       = Some (31, 31)"
proof -
  have m: "patch_txt world1 = Missing"
    by (simp add: world1_def)
  have f: "patch_txt (world1\<lparr>patch_txt :=
        File ''B8 80 07 00 00 BB 80 43 00 00 B9 00 00 00 00 BA 80 07 00 00 BE 38 04 00 00 BF 80 07 00 00 90''\<rparr>)
       = File ''B8 80 07 00 00 BB 80 43 00 00 B9 00 00 00 00 BA 80 07 00 00 BE 38 04 00 00 BF 80 07 00 00 90''"
    by simp
  show ?thesis
    using search_and_replacement_lengths [OF pattern_5120, of world1]
      search_and_replacement_lengths [OF pattern_5120, of
        "world1\<lparr>patch_txt :=
           File ''B8 80 07 00 00 BB 80 43 00 00 B9 00 00 00 00 BA 80 07 00 00 BE 38 04 00 00 BF 80 07 00 00 90''\<rparr>"
        1920 1080 1920 1080]
      pattern_5120 pattern_1080 m f
    by simp
qed

text \<open>
  C3 as stated fails on a first run: in \<open>world1\<close> the search buffer has 14 bytes and
  the replacement buffer 31, so the two differ and the replacement is the longer one.
\<close>

theorem default_search_shorter_counterexample:
  "patch_replace_pattern 5120 1440 5120 1440 =
     Inr ''B8 00 14 00 00 BB 00 5A 00 00 B9 00 00 00 00 BA 00 14 00 00 BE A0 05 00 00 BF 00 14 00 00 90''
   \<and> buffer_lengths (fst (edit_exe_patterns search_pattern1
        ''B8 00 14 00 00 BB 00 5A 00 00 B9 00 00 00 00 BA 00 14 00 00 BE A0 05 00 00 BF 00 14 00 00 90''
        world1)) = Some (14, 31)"
  by (simp add: patch_replace_pattern_def resolution_def patch_offset_same patch_special_def
      to_bytes4_def hex_tokens_def format_02X_def hex_digit_upper_def
      edit_exe_patterns_def Let_def world1_def buffer_lengths_def
      search_pattern1_def py_strip_def parse_signature_def py_split_def is_space_def
      py_int16_def digit_value_def py_bytes_def)

section \<open>The whole run\<close>

text \<open>
  A configured width that exceeds the desktop width by two or more makes the centering
  value negative, and the calculator raises \<open>OverflowError\<close>.
\<close>

lemma negative_offset_raises:
  assumes "resolution cw ch dw dh = (w, h)" and "dw - w \<le> - 2" and "\<bar>dw - w\<bar> < 2 ^ 53"
  shows "patch_replace_pattern cw ch dw dh = Inl OverflowError"
proof -
  have "sgn (dw - w) * (\<bar>dw - w\<bar> div 2) < 0"
    using assms(2) by (simp add: sgn_if)
  then obtain off where off: "patch_offset dw w = Inr off" "off < 0"
    using patch_offset_trunc [OF assms(3)] by simp
  have "\<not> in_u32 off"
    using off(2) by (simp add: in_u32_def)
  then show ?thesis
    unfolding patch_replace_pattern_def to_bytes4_cases
    by (simp add: assms(1) off(1))
qed

text \<open>
  With a loaded configuration, \<open>patch\<close> hands the default search pattern and the
  computed replacement pattern to \<open>edit_exe\<close>, and returns \<open>None\<close> whatever
  \<open>edit_exe\<close> returns; an empty sidecar stops it with \<open>IndexError\<close>.
\<close>

lemma patch_runs_edit_exe:
  assumes "get_desktop_resolution monitors = Inr (dw, dh)"
    and "patch_replace_pattern width height dw dh = Inr pat"
  shows "patch game_exe (YamlLoaded (Some (width, height))) monitors w
           = (case edit_exe game_exe search_pattern1 pat
                     (py_print [YamlWidth width, YamlHeight height] w) of
                (Inl e, w2) \<Rightarrow> (Inl e, w2)
              | (Inr r, w2) \<Rightarrow> (Inr None, w2))"
  using assms by (simp add: patch_def read_yaml_def Let_def)

lemma patch_result_None: "fst (patch game_exe y monitors w) = Inr x \<Longrightarrow> x = None"
  by (auto simp add: patch_def Let_def split: prod.splits option.splits sum.splits)

lemma patch_empty_sidecar:
  assumes "get_desktop_resolution monitors = Inr (dw, dh)"
    and "patch_replace_pattern width height dw dh = Inr pat"
    and "patch_txt w = File []"
  shows "fst (patch game_exe (YamlLoaded (Some (width, height))) monitors w) = Inl IndexError"
proof -
  obtain bs where "pat = hex_tokens bs"
    using assms(2) by (rule patch_replace_pattern_tokens)
  then have rp: "parse_signature pat = Inr bs"
    by (simp only: parse_signature_hex_tokens)
  show ?thesis
    using assms(3)
    by (simp add: patch_runs_edit_exe [OF assms(1,2)] edit_exe_def edit_exe_patterns_def Let_def
        default_search_bytes rp readlines_def py_print_def)
qed

end
